theory Spec2Isabelle
  imports Main "HOL-Library.Char_ord" "HOL-Library.List_Lexorder" "HOL-Library.DAList"
begin

section \<open>Tables\<close>

text \<open>
  The encoder of \<^verbatim>\<open>src/categorical_encoder.py\<close> works on a pandas data frame. A frame
  is an ordered collection of labelled columns; a column carries a dtype, and the encoder
  dispatches on that dtype alone. Two kinds of column occur in the application:
  \<^item> dtype \<^verbatim>\<open>object\<close>: Python strings, with \<^verbatim>\<open>None\<close>/NaN for a missing entry;
  \<^item> an integer dtype: the sliders and number inputs of the form, and the codes the
    encoder writes (pandas picks the narrowest of int8..int64 that holds every code, so
    a code never wraps and is modelled as an unbounded \<open>int\<close>).
  Python compares strings code point by code point, a proper prefix first; on the UTF-8
  bytes held by \<open>string\<close> this is the lexicographic order of \<open>char list\<close>.

  The frames of the application are built from a dictionary (\<^verbatim>\<open>user_input_features\<close>)
  and by \<^verbatim>\<open>read_csv\<close>, which renames a repeated header: no label occurs twice. A table
  is therefore an association list with distinct keys, in column order.
\<close>

datatype column = ObjectCol "string option list" | IntCol "int list"

type_synonym table = "(string, column) alist"

datatype exn = AttributeError | KeyError | IndexError | LibraryError string

text \<open>What a caller can pass for \<^verbatim>\<open>df\<close>: a frame, or any object that is not one.\<close>

datatype pyobj = DataFrame table | NotDataFrame

fun is_object :: "column \<Rightarrow> bool" where
  "is_object (ObjectCol vs) = True"
| "is_object (IntCol xs) = False"

fun col_len :: "column \<Rightarrow> nat" where
  "col_len (ObjectCol vs) = length vs"
| "col_len (IntCol xs) = length xs"

definition columns :: "table \<Rightarrow> string list" where
  "columns df = map fst (DAList.impl_of df)"

definition select_dtypes_object :: "table \<Rightarrow> table" where
  "select_dtypes_object df = DAList.filter (\<lambda>(name, c). is_object c) df"

definition getitem :: "table \<Rightarrow> string \<Rightarrow> exn + column" where
  "getitem df name = (case DAList.lookup df name of None \<Rightarrow> Inl KeyError | Some c \<Rightarrow> Inr c)"

text \<open>\<^verbatim>\<open>df[name] = values\<close> overwrites the column labelled \<open>name\<close> where it stands and
  appends a new column when there is none.\<close>

definition setitem :: "table \<Rightarrow> string \<Rightarrow> column \<Rightarrow> table" where
  "setitem df name c = DAList.update name c df"

section \<open>Categorical codes\<close>

text \<open>
  \<^verbatim>\<open>pd.Categorical(values)\<close> takes as categories the distinct non-missing values in
  sorted order; \<^verbatim>\<open>.codes\<close> replaces each value by the position of its category and
  each missing value by \<open>-1\<close>.
\<close>

fun dropna :: "'a option list \<Rightarrow> 'a list" where
  "dropna [] = []"
| "dropna (None # vs) = dropna vs"
| "dropna (Some s # vs) = s # dropna vs"

definition categories :: "'a::linorder option list \<Rightarrow> 'a list" where
  "categories vs = sort (remdups (dropna vs))"

fun get_loc :: "'a list \<Rightarrow> 'a \<Rightarrow> nat" where
  "get_loc [] x = 0"
| "get_loc (y # ys) x = (if x = y then 0 else Suc (get_loc ys x))"

definition codes :: "'a::linorder option list \<Rightarrow> int list" where
  "codes vs = map (\<lambda>v. case v of None \<Rightarrow> - 1 | Some s \<Rightarrow> int (get_loc (categories vs) s)) vs"

fun Categorical_codes :: "column \<Rightarrow> int list" where
  "Categorical_codes (ObjectCol vs) = codes vs"
| "Categorical_codes (IntCol xs) = codes (map Some xs)"

section \<open>The encoder\<close>

text \<open>
  \<^verbatim>\<open>
  def encode_categorical(df):
      for column in df.select_dtypes(include=['object']).columns:
          df[column] = pd.Categorical(df[column]).codes
      return df
  \<close>
  The labels to visit are computed once, before the loop; the loop body reads and writes
  the frame as it stands. The frame is mutated in place and returned, so the returned
  table is also the new content of the caller's variable. An object without the method
  \<^verbatim>\<open>select_dtypes\<close> makes the first line raise \<^verbatim>\<open>AttributeError\<close>.
\<close>

fun encode_loop :: "string list \<Rightarrow> table \<Rightarrow> exn + table" where
  "encode_loop [] df = Inr df"
| "encode_loop (column # rest) df =
     (case getitem df column of
        Inl e \<Rightarrow> Inl e
      | Inr series \<Rightarrow> encode_loop rest (setitem df column (IntCol (Categorical_codes series))))"

fun encode_categorical :: "pyobj \<Rightarrow> exn + table" where
  "encode_categorical NotDataFrame = Inl AttributeError"
| "encode_categorical (DataFrame df) = encode_loop (columns (select_dtypes_object df)) df"

text \<open>What one pass does to a single column, for stating results column by column.\<close>

fun encode_column :: "column \<Rightarrow> column" where
  "encode_column (ObjectCol vs) = IntCol (codes vs)"
| "encode_column (IntCol xs) = IntCol xs"

text \<open>The number of rows of a frame, read off its first column.\<close>

definition nrows :: "table \<Rightarrow> nat" where
  "nrows df = (case DAList.impl_of df of [] \<Rightarrow> 0 | (name, c) # rest \<Rightarrow> col_len c)"

section \<open>The prediction request\<close>

text \<open>
  The objects \<^verbatim>\<open>make_prediction\<close> of \<^verbatim>\<open>app-prod.py\<close> receives are records of their
  methods. A method of a library object either returns or raises, so each has a result
  in \<open>exn + _\<close>. The transformed input is a matrix, held as the list of its rows.
\<close>

text \<open>Modelled from the spec: the preprocessing pipeline that
  \<^verbatim>\<open>scripts/preprocessing.py\<close> builds and \<^verbatim>\<open>load_and_fit_preprocessor\<close> fits is
  not among the sources. The spec gives its contract: a fit/transform object,
  \<^verbatim>\<open>transform(table) -> numeric matrix\<close>, deterministic given the same fitted state.
  The fitted state is the record itself; \<open>transform\<close> is a function of it and the table.\<close>

record 'r preprocessor =
  transform :: "table \<Rightarrow> exn + 'r list"

record ('r, 'q) classifier =
  predict :: "'r list \<Rightarrow> exn + int list"
  predict_proba :: 'q

datatype 's shap_result = ShapList "'s list" | ShapArray 's

record ('r, 's, 'e) tree_explainer =
  shap_values :: "'r list \<Rightarrow> exn + 's shap_result"
  expected_value :: 'e

record ('r, 'q, 'l) lime_tabular_explainer =
  explain_instance :: "'r \<Rightarrow> 'q \<Rightarrow> nat \<Rightarrow> exn + 'l"

text \<open>The module \<^verbatim>\<open>config\<close> is not among the sources; the one constant read in the
  request is a parameter. \<open>str\<close> is Python's \<^verbatim>\<open>str\<close> on an exception: its message.\<close>

record config =
  LIME_NUM_FEATURES :: nat
  str :: "exn \<Rightarrow> string"

text \<open>What the page shows: \<^verbatim>\<open>st.error\<close>, \<^verbatim>\<open>st.write\<close> and an embedded HTML
  component, in the order they were emitted.\<close>

datatype 'h ui = StError string | StWrite string | StHtml 'h

text \<open>\<^verbatim>\<open>xs[i]\<close> for a non-negative index.\<close>

definition item :: "'a list \<Rightarrow> nat \<Rightarrow> exn + 'a" where
  "item xs i = (if i < length xs then Inr (xs ! i) else Inl IndexError)"

text \<open>The two labels. The source appends an emoji to each (U+1F60A and U+1F61E), here
  as its four UTF-8 bytes.\<close>

definition Satisfied :: string where
  "Satisfied = ''Satisfied '' @ [CHR 0xF0, CHR 0x9F, CHR 0x98, CHR 0x8A]"

definition Not_Satisfied :: string where
  "Not_Satisfied = ''Not Satisfied '' @ [CHR 0xF0, CHR 0x9F, CHR 0x98, CHR 0x9E]"

text \<open>Lines 52 and 53: encode in place, transform, predict.\<close>

definition transform_predict ::
  "('r, 'q) classifier \<Rightarrow> 'r preprocessor \<Rightarrow> pyobj \<Rightarrow> exn + ('r list \<times> int list)" where
  "transform_predict model preprocessor input_df =
     (case encode_categorical input_df of
        Inl e \<Rightarrow> Inl e
      | Inr encoded \<Rightarrow>
          (case transform preprocessor encoded of
             Inl e \<Rightarrow> Inl e
           | Inr input_df_transformed \<Rightarrow>
               (case predict model input_df_transformed of
                  Inl e \<Rightarrow> Inl e
                | Inr prediction \<Rightarrow> Inr (input_df_transformed, prediction))))"

text \<open>The body of the \<^verbatim>\<open>try\<close> block: the first statement that raises ends it.\<close>

definition try_body ::
  "config \<Rightarrow> ('r, 'q) classifier \<Rightarrow> 'r preprocessor \<Rightarrow> pyobj \<Rightarrow> ('r, 's, 'e) tree_explainer \<Rightarrow>
   ('r, 'q, 'l) lime_tabular_explainer \<Rightarrow> exn + (string \<times> 's \<times> 'e \<times> 'r list \<times> 'l)" where
  "try_body cfg model preprocessor input_df explainer lime_explainer =
     (case transform_predict model preprocessor input_df of
        Inl e \<Rightarrow> Inl e
      | Inr (input_df_transformed, prediction) \<Rightarrow>
     (case shap_values explainer input_df_transformed of
        Inl e \<Rightarrow> Inl e
      | Inr sv \<Rightarrow>
     (case (case sv of ShapList l \<Rightarrow> item l 1 | ShapArray a \<Rightarrow> Inr a) of
        Inl e \<Rightarrow> Inl e
      | Inr shap_vals \<Rightarrow>
     (case item input_df_transformed 0 of
        Inl e \<Rightarrow> Inl e
      | Inr data_row \<Rightarrow>
     (case explain_instance lime_explainer data_row (predict_proba model) (LIME_NUM_FEATURES cfg) of
        Inl e \<Rightarrow> Inl e
      | Inr lime_explanation \<Rightarrow>
     (case item prediction 0 of
        Inl e \<Rightarrow> Inl e
      | Inr p \<Rightarrow>
          Inr (if p \<noteq> 0 then Satisfied else Not_Satisfied, shap_vals,
               expected_value explainer, input_df_transformed, lime_explanation)))))))"

definition error_text :: "config \<Rightarrow> exn \<Rightarrow> string" where
  "error_text cfg e = ''Error occurred during prediction: '' @ str cfg e @ ''. Please contact support.''"

text \<open>\<^verbatim>\<open>make_prediction\<close>: the five returned values (each \<^verbatim>\<open>None\<close> after a failure)
  and the page, to which \<^verbatim>\<open>st.error\<close> may have added a message.\<close>

definition make_prediction ::
  "config \<Rightarrow> ('r, 'q) classifier \<Rightarrow> 'r preprocessor \<Rightarrow> pyobj \<Rightarrow> ('r, 's, 'e) tree_explainer \<Rightarrow>
   ('r, 'q, 'l) lime_tabular_explainer \<Rightarrow> 'h ui list \<Rightarrow>
   (string option \<times> 's option \<times> 'e option \<times> 'r list option \<times> 'l option) \<times> 'h ui list" where
  "make_prediction cfg model preprocessor input_df explainer lime_explainer page =
     (case try_body cfg model preprocessor input_df explainer lime_explainer of
        Inr (label, shap_vals, expected, input_df_transformed, lime_explanation) \<Rightarrow>
          ((Some label, Some shap_vals, Some expected, Some input_df_transformed,
            Some lime_explanation), page)
      | Inl e \<Rightarrow>
          ((None, None, None, None, None), page @ [StError (error_text cfg e)]))"

text \<open>The handler of the predict button (lines 115 to 129). A label is a non-empty
  string, so \<^verbatim>\<open>if result:\<close> tests for \<^verbatim>\<open>None\<close>. \<open>as_html\<close> renders the LIME
  explanation; it runs outside the \<^verbatim>\<open>try\<close> block.\<close>

definition predict_button ::
  "config \<Rightarrow> ('l \<Rightarrow> exn + 'h) \<Rightarrow> ('r, 'q) classifier \<Rightarrow> 'r preprocessor \<Rightarrow> pyobj \<Rightarrow>
   ('r, 's, 'e) tree_explainer \<Rightarrow> ('r, 'q, 'l) lime_tabular_explainer \<Rightarrow> 'h ui list \<Rightarrow>
   exn option \<times> 'h ui list" where
  "predict_button cfg as_html model preprocessor input_df explainer lime_explainer page =
     (case make_prediction cfg model preprocessor input_df explainer lime_explainer page of
        ((Some result, sv, ev, X, Some lime_explanation), page1) \<Rightarrow>
          (if result \<noteq> [] then
             (let page2 = page1 @ [StWrite (''### Prediction: '' @ result),
                                   StWrite ''### LIME Explanation:'']
              in case as_html lime_explanation of
                   Inl e \<Rightarrow> (Some e, page2)
                 | Inr lime_html \<Rightarrow> (None, page2 @ [StHtml lime_html]))
           else (None, page1))
      | ((Some result, sv, ev, X, None), page1) \<Rightarrow>
          (if result \<noteq> [] then
             (Some AttributeError,
              page1 @ [StWrite (''### Prediction: '' @ result), StWrite ''### LIME Explanation:''])
           else (None, page1))
      | ((None, sv, ev, X, lime), page1) \<Rightarrow> (None, page1))"

text \<open>The frame \<^verbatim>\<open>user_input_features\<close> builds when every widget is left at its
  default: one row, the columns in the order of the dictionary.\<close>

definition default_input :: table where
  "default_input = Alist
     [(''Online boarding'', IntCol [3]),
      (''Inflight wifi service'', IntCol [3]),
      (''Inflight entertainment'', IntCol [3]),
      (''Checkin service'', IntCol [3]),
      (''Seat comfort'', IntCol [3]),
      (''Age'', IntCol [18]),
      (''Flight Distance'', IntCol [100]),
      (''Business Travel'', ObjectCol [Some ''Yes'']),
      (''Loyal Customer'', ObjectCol [Some ''Yes'']),
      (''Class'', ObjectCol [Some ''Eco''])]"

text \<open>The spec's example column, beside a column with a missing entry and a numeric
  column.\<close>

definition example_df :: table where
  "example_df = Alist
     [(''Class'', ObjectCol [Some ''Eco'', Some ''Business'', Some ''Eco'']),
      (''Seat'', ObjectCol [Some ''A'', None, Some ''A'']),
      (''Age'', IntCol [18, 40, 25])]"

text \<open>The default record after encoding: each of its three nominal columns holds a
  single string, whose code is 0.\<close>

definition encoded_default :: table where
  "encoded_default = Alist
     [(''Online boarding'', IntCol [3]),
      (''Inflight wifi service'', IntCol [3]),
      (''Inflight entertainment'', IntCol [3]),
      (''Checkin service'', IntCol [3]),
      (''Seat comfort'', IntCol [3]),
      (''Age'', IntCol [18]),
      (''Flight Distance'', IntCol [100]),
      (''Business Travel'', IntCol [0]),
      (''Loyal Customer'', IntCol [0]),
      (''Class'', IntCol [0])]"

text \<open>Stand-ins for the collaborators, to run the request on: a pipeline that returns
  the encoded default record as a single row, a model that answers 1 for every row,
  a SHAP explainer that returns, and a LIME explainer that raises.\<close>

definition demo_config :: config where
  "demo_config = \<lparr>LIME_NUM_FEATURES = 10,
                   str = (\<lambda>e. case e of LibraryError msg \<Rightarrow> msg | _ \<Rightarrow> ''error'')\<rparr>"

definition demo_preprocessor :: "int list preprocessor" where
  "demo_preprocessor = \<lparr>transform = (\<lambda>df. Inr [[3, 3, 3, 3, 3, 18, 100, 0, 0, 0]])\<rparr>"

definition demo_model :: "(int list, unit) classifier" where
  "demo_model = \<lparr>predict = (\<lambda>X. Inr (map (\<lambda>row. 1) X)), predict_proba = ()\<rparr>"

definition demo_explainer :: "(int list, int list, int) tree_explainer" where
  "demo_explainer = \<lparr>shap_values = (\<lambda>X. Inr (ShapList [[0], [1]])), expected_value = 0\<rparr>"

definition failing_lime :: "(int list, unit, string) lime_tabular_explainer" where
  "failing_lime = \<lparr>explain_instance = (\<lambda>row f n. Inl (LibraryError ''no neighbourhood''))\<rparr>"

definition demo_as_html :: "string \<Rightarrow> exn + string" where
  "demo_as_html lime_explanation = Inr (''<html>'' @ lime_explanation @ ''</html>'')"

section \<open>Properties of the codes\<close>

lemma set_dropna: "set (dropna vs) = {s. Some s \<in> set vs}"
  by (induction vs rule: dropna.induct) auto

lemma set_categories: "set (categories vs) = set (dropna vs)"
  by (simp add: categories_def)

lemma distinct_categories: "distinct (categories vs)"
  by (simp add: categories_def)

lemma sorted_categories: "sorted (categories vs)"
  by (simp add: categories_def)

lemma length_categories: "length (categories vs) = card (set (dropna vs))"
  by (simp add: categories_def distinct_card [symmetric] length_remdups_card_conv)

lemma get_loc_less: "x \<in> set xs \<Longrightarrow> get_loc xs x < length xs"
  by (induction xs) auto

lemma nth_get_loc: "x \<in> set xs \<Longrightarrow> xs ! get_loc xs x = x"
  by (induction xs) auto

lemma get_loc_nth: "distinct xs \<Longrightarrow> i < length xs \<Longrightarrow> get_loc xs (xs ! i) = i"
  by (induction xs arbitrary: i) (auto simp: nth_Cons split: nat.splits)

lemma get_loc_inj: "x \<in> set xs \<Longrightarrow> y \<in> set xs \<Longrightarrow> get_loc xs x = get_loc xs y \<Longrightarrow> x = y"
  by (metis nth_get_loc)

lemma sorted_distinct_rank:
  "sorted xs \<Longrightarrow> distinct xs \<Longrightarrow> x \<in> set xs \<Longrightarrow> get_loc xs x = card {t \<in> set xs. t < x}"
proof (induction xs)
  case Nil
  then show ?case by simp
next
  case (Cons y ys)
  show ?case
  proof (cases "x = y")
    case True
    with Cons.prems have "{t \<in> set (y # ys). t < x} = {}" by auto
    with True show ?thesis by simp
  next
    case False
    with Cons.prems have xin: "x \<in> set ys" and yx: "y < x" by auto
    have "{t \<in> set (y # ys). t < x} = insert y {t \<in> set ys. t < x}"
      using yx by auto
    moreover have "y \<notin> {t \<in> set ys. t < x}" using Cons.prems by auto
    ultimately have "card {t \<in> set (y # ys). t < x} = Suc (card {t \<in> set ys. t < x})"
      by simp
    with Cons False xin show ?thesis by simp
  qed
qed

lemma length_codes: "length (codes vs) = length vs"
  by (simp add: codes_def)

lemma codes_nth_None: "i < length vs \<Longrightarrow> vs ! i = None \<Longrightarrow> codes vs ! i = - 1"
  by (simp add: codes_def)

lemma codes_nth_Some:
  "i < length vs \<Longrightarrow> vs ! i = Some s \<Longrightarrow> codes vs ! i = int (get_loc (categories vs) s)"
  by (simp add: codes_def)

lemma Some_in_categories: "i < length vs \<Longrightarrow> vs ! i = Some s \<Longrightarrow> s \<in> set (categories vs)"
  by (metis (mono_tags, lifting) mem_Collect_eq nth_mem set_categories set_dropna)

lemma codes_rank:
  "i < length vs \<Longrightarrow> vs ! i = Some s \<Longrightarrow> codes vs ! i = int (card {t \<in> set (dropna vs). t < s})"
  using sorted_distinct_rank [OF sorted_categories distinct_categories Some_in_categories, of i vs s]
  by (simp add: codes_nth_Some set_categories)

lemma codes_range:
  "{codes vs ! i | i. i < length vs \<and> vs ! i \<noteq> None} = int ` {0..<card (set (dropna vs))}"
proof (intro equalityI subsetI)
  fix c assume "c \<in> {codes vs ! i | i. i < length vs \<and> vs ! i \<noteq> None}"
  then obtain i s where i: "i < length vs" "vs ! i = Some s" and c: "c = codes vs ! i" by auto
  have "get_loc (categories vs) s < length (categories vs)"
    using Some_in_categories [OF i] by (rule get_loc_less)
  then show "c \<in> int ` {0..<card (set (dropna vs))}"
    using i c by (simp add: codes_nth_Some length_categories)
next
  fix c assume "c \<in> int ` {0..<card (set (dropna vs))}"
  then obtain k where k: "k < length (categories vs)" and c: "c = int k"
    by (auto simp: length_categories)
  have "categories vs ! k \<in> set (dropna vs)"
    using k set_categories nth_mem by blast
  then have "Some (categories vs ! k) \<in> set vs" by (simp add: set_dropna)
  then obtain i where i: "i < length vs" "vs ! i = Some (categories vs ! k)"
    by (metis in_set_conv_nth)
  have "codes vs ! i = int k"
    using i k by (simp add: codes_nth_Some get_loc_nth distinct_categories)
  with i c show "c \<in> {codes vs ! i | i. i < length vs \<and> vs ! i \<noteq> None}" by force
qed

section \<open>The encoder, column by column\<close>

lemma update_present:
  "distinct (map fst xs) \<Longrightarrow> map_of xs k = Some c \<Longrightarrow>
   AList.update k v xs = map (\<lambda>(n, c0). if n = k then (n, v) else (n, c0)) xs"
proof (induction xs)
  case Nil
  then show ?case by simp
next
  case (Cons p xs)
  obtain m d where p: "p = (m, d)" by (cases p)
  show ?case
  proof (cases "m = k")
    case True
    with Cons.prems p have "k \<notin> fst ` set xs" by simp
    then have "map (\<lambda>(n, c0). if n = k then (n, v) else (n, c0)) xs = xs"
      by (intro map_idI) force
    with True p show ?thesis by simp
  next
    case False
    with Cons p show ?thesis by simp
  qed
qed

lemma encode_loop_map:
  "distinct names \<Longrightarrow> set names \<subseteq> set (columns df) \<Longrightarrow>
   \<exists>df'. encode_loop names df = Inr df' \<and>
     DAList.impl_of df' =
       map (\<lambda>(n, c). if n \<in> set names then (n, IntCol (Categorical_codes c)) else (n, c))
         (DAList.impl_of df)"
proof (induction names arbitrary: df)
  case Nil
  then show ?case by simp
next
  case (Cons name rest)
  let ?xs = "DAList.impl_of df"
  from Cons.prems have "name \<in> fst ` set ?xs" by (simp add: columns_def)
  then obtain c where c: "map_of ?xs name = Some c"
    by (metis domIff dom_map_of_conv_image_fst not_Some_eq)
  let ?v = "IntCol (Categorical_codes c)"
  let ?df = "setitem df name ?v"
  have upd: "DAList.impl_of ?df = map (\<lambda>(n, c0). if n = name then (n, ?v) else (n, c0)) ?xs"
    using c by (simp add: setitem_def update.rep_eq update_present)
  then have cols: "columns ?df = columns df"
    by (auto simp: columns_def)
  have step: "encode_loop (name # rest) df = encode_loop rest ?df"
    using c by (simp add: getitem_def lookup.rep_eq)
  from Cons.prems cols have "distinct rest" "set rest \<subseteq> set (columns ?df)" by auto
  from Cons.IH [OF this] obtain df' where df': "encode_loop rest ?df = Inr df'"
    and impl: "DAList.impl_of df' =
      map (\<lambda>(n, c). if n \<in> set rest then (n, IntCol (Categorical_codes c)) else (n, c))
        (DAList.impl_of ?df)"
    by blast
  have "\<And>n d. (n, d) \<in> set ?xs \<Longrightarrow> n = name \<Longrightarrow> d = c"
    using c by (metis DAList.impl_of_distinct map_of_eq_Some_iff option.inject)
  then have "DAList.impl_of df' =
      map (\<lambda>(n, c). if n \<in> set (name # rest) then (n, IntCol (Categorical_codes c)) else (n, c)) ?xs"
    using Cons.prems(1) by (auto simp: impl upd)
  with step df' show ?case by simp
qed

lemma object_labels:
  "set (columns (select_dtypes_object df)) = {n. \<exists>vs. (n, ObjectCol vs) \<in> set (DAList.impl_of df)}"
proof -
  have "\<And>c. is_object c = (\<exists>vs. c = ObjectCol vs)"
    by (case_tac c) auto
  then show ?thesis
    by (force simp: columns_def select_dtypes_object_def filter.rep_eq)
qed

lemma encode_categorical_map:
  "\<exists>df'. encode_categorical (DataFrame df) = Inr df' \<and>
     DAList.impl_of df' = map (\<lambda>(n, c). (n, encode_column c)) (DAList.impl_of df)"
proof -
  let ?names = "columns (select_dtypes_object df)"
  let ?xs = "DAList.impl_of df"
  have dist: "distinct ?names"
    by (simp add: columns_def)
  have sub: "set ?names \<subseteq> set (columns df)"
    by (auto simp: columns_def select_dtypes_object_def filter.rep_eq)
  have "map (\<lambda>(n, c). if n \<in> set ?names then (n, IntCol (Categorical_codes c)) else (n, c)) ?xs
      = map (\<lambda>(n, c). (n, encode_column c)) ?xs"
  proof (rule map_cong [OF refl])
    fix p assume p: "p \<in> set ?xs"
    obtain n c where nc: "p = (n, c)" by (cases p)
    show "(case p of (n, c) \<Rightarrow> if n \<in> set ?names then (n, IntCol (Categorical_codes c)) else (n, c))
        = (case p of (n, c) \<Rightarrow> (n, encode_column c))"
    proof (cases c)
      case (ObjectCol vs)
      with p nc show ?thesis by (auto simp: object_labels)
    next
      case (IntCol xs)
      have "n \<notin> set ?names"
      proof
        assume "n \<in> set ?names"
        then obtain vs where "(n, ObjectCol vs) \<in> set ?xs" by (auto simp: object_labels)
        with p nc IntCol show False
          by (metis DAList.impl_of_distinct column.distinct(1) map_of_eq_Some_iff option.inject)
      qed
      with nc IntCol show ?thesis by simp
    qed
  qed
  with encode_loop_map [OF dist sub] show ?thesis by simp
qed

lemma encode_column_idem: "encode_column (encode_column c) = encode_column c"
  by (cases c) auto

lemma map_of_map_encode:
  "map_of (map (\<lambda>(n, c). (n, encode_column c)) xs) n = map_option encode_column (map_of xs n)"
  by (induction xs) auto

lemma encode_categorical_frame:
  obtains df' where "encode_categorical (DataFrame df) = Inr df'"
    and "DAList.impl_of df' = map (\<lambda>(n, c). (n, encode_column c)) (DAList.impl_of df)"
    and "columns df' = columns df"
    and "\<And>n. DAList.lookup df' n = map_option encode_column (DAList.lookup df n)"
proof -
  from encode_categorical_map [of df] obtain df' where
    e: "encode_categorical (DataFrame df) = Inr df'" and
    i: "DAList.impl_of df' = map (\<lambda>(n, c). (n, encode_column c)) (DAList.impl_of df)"
    by blast
  have "columns df' = columns df"
    by (auto simp: columns_def i)
  moreover have "\<And>n. DAList.lookup df' n = map_option encode_column (DAList.lookup df n)"
    by (simp add: lookup.rep_eq i map_of_map_encode)
  ultimately show thesis using e i that by blast
qed

lemma codes_nonneg: "i < length vs \<Longrightarrow> vs ! i = Some s \<Longrightarrow> 0 \<le> codes vs ! i"
  by (simp add: codes_nth_Some)

lemma codes_eq_iff:
  "i < length vs \<Longrightarrow> j < length vs \<Longrightarrow> vs ! i = Some s \<Longrightarrow> vs ! j = Some t \<Longrightarrow>
   (codes vs ! i = codes vs ! j) = (s = t)"
  using get_loc_inj [OF Some_in_categories Some_in_categories, of i vs s j t]
  by (auto simp: codes_nth_Some)

lemma card_codes:
  "card {codes vs ! i | i. i < length vs \<and> vs ! i \<noteq> None} = card {s. Some s \<in> set vs}"
  by (subst codes_range) (simp add: card_image set_dropna)

lemma encode_column_id: "\<not> is_object c \<Longrightarrow> encode_column c = c"
  by (cases c) auto

lemma dropna_replicate: "dropna (replicate n (Some s)) = replicate n s"
  by (induction n) auto

lemma remdups_replicate_if: "remdups (replicate n s) = (if n = 0 then [] else [s])"
  by (induction n) auto

lemma codes_replicate: "codes (replicate k (Some s)) = replicate k 0"
proof -
  have "categories (replicate k (Some s)) = (if k = 0 then [] else [s])"
    unfolding categories_def dropna_replicate remdups_replicate_if by simp
  then show ?thesis
    unfolding codes_def by (cases "k = 0") (simp_all add: map_replicate)
qed

lemma codes_as_rank:
  "codes vs = map (\<lambda>v. case v of None \<Rightarrow> - 1
                     | Some s \<Rightarrow> int (card {t. Some t \<in> set vs \<and> t < s})) vs"
proof (rule nth_equalityI)
  show "length (codes vs) = length (map (\<lambda>v. case v of None \<Rightarrow> - 1
                     | Some s \<Rightarrow> int (card {t. Some t \<in> set vs \<and> t < s})) vs)"
    by (simp add: length_codes)
next
  fix i assume "i < length (codes vs)"
  then have i: "i < length vs" by (simp add: length_codes)
  show "codes vs ! i = map (\<lambda>v. case v of None \<Rightarrow> - 1
                     | Some s \<Rightarrow> int (card {t. Some t \<in> set vs \<and> t < s})) vs ! i"
  proof (cases "vs ! i")
    case None
    with i show ?thesis by (simp add: codes_nth_None)
  next
    case (Some s)
    with i codes_rank [OF i Some] show ?thesis by (simp add: set_dropna)
  qed
qed

section \<open>The example tables\<close>

lemma impl_of_example_df:
  "DAList.impl_of example_df =
     [(''Class'', ObjectCol [Some ''Eco'', Some ''Business'', Some ''Eco'']),
      (''Seat'', ObjectCol [Some ''A'', None, Some ''A'']),
      (''Age'', IntCol [18, 40, 25])]"
  unfolding example_df_def by (rule impl_of_Alist) simp

lemma lookup_example_df:
  "DAList.lookup example_df ''Class'' = Some (ObjectCol [Some ''Eco'', Some ''Business'', Some ''Eco''])"
  "DAList.lookup example_df ''Seat'' = Some (ObjectCol [Some ''A'', None, Some ''A''])"
  "DAList.lookup example_df ''Age'' = Some (IntCol [18, 40, 25])"
  by (simp_all add: lookup.rep_eq impl_of_example_df)

lemma impl_of_default_input:
  "DAList.impl_of default_input =
     [(''Online boarding'', IntCol [3]),
      (''Inflight wifi service'', IntCol [3]),
      (''Inflight entertainment'', IntCol [3]),
      (''Checkin service'', IntCol [3]),
      (''Seat comfort'', IntCol [3]),
      (''Age'', IntCol [18]),
      (''Flight Distance'', IntCol [100]),
      (''Business Travel'', ObjectCol [Some ''Yes'']),
      (''Loyal Customer'', ObjectCol [Some ''Yes'']),
      (''Class'', ObjectCol [Some ''Eco''])]"
  unfolding default_input_def by (rule impl_of_Alist) simp

lemma impl_of_encoded_default:
  "DAList.impl_of encoded_default =
     [(''Online boarding'', IntCol [3]),
      (''Inflight wifi service'', IntCol [3]),
      (''Inflight entertainment'', IntCol [3]),
      (''Checkin service'', IntCol [3]),
      (''Seat comfort'', IntCol [3]),
      (''Age'', IntCol [18]),
      (''Flight Distance'', IntCol [100]),
      (''Business Travel'', IntCol [0]),
      (''Loyal Customer'', IntCol [0]),
      (''Class'', IntCol [0])]"
  unfolding encoded_default_def by (rule impl_of_Alist) simp

lemma encode_default_input:
  "encode_categorical (DataFrame default_input) = Inr encoded_default"
proof -
  obtain df' where e: "encode_categorical (DataFrame default_input) = Inr df'"
    and i: "DAList.impl_of df' = map (\<lambda>(n, c). (n, encode_column c)) (DAList.impl_of default_input)"
    using encode_categorical_frame [of default_input] by blast
  have "DAList.impl_of df' = DAList.impl_of encoded_default"
    by (simp add: i impl_of_default_input impl_of_encoded_default codes_def categories_def)
  then have "df' = encoded_default" by (rule alist_ext)
  with e show ?thesis by simp
qed

lemma encode_example_df:
  "encode_categorical (DataFrame example_df) = Inr (Alist
     [(''Class'', IntCol [1, 0, 1]),
      (''Seat'', IntCol [0, - 1, 0]),
      (''Age'', IntCol [18, 40, 25])])"
proof -
  obtain df' where e: "encode_categorical (DataFrame example_df) = Inr df'"
    and i: "DAList.impl_of df' = map (\<lambda>(n, c). (n, encode_column c)) (DAList.impl_of example_df)"
    using encode_categorical_frame [of example_df] by blast
  have "df' = Alist [(''Class'', IntCol [1, 0, 1]), (''Seat'', IntCol [0, - 1, 0]),
      (''Age'', IntCol [18, 40, 25])]"
    by (rule alist_ext) (simp add: i impl_of_example_df impl_of_Alist codes_def categories_def)
  with e show ?thesis by simp
qed

section \<open>The request: what it returns and shows\<close>

lemma make_prediction_cases:
  "(\<exists>e. make_prediction cfg model preprocessor input_df explainer lime_explainer page
           = ((None, None, None, None, None), page @ [StError (error_text cfg e)])) \<or>
   (\<exists>label s ev X l.
      make_prediction cfg model preprocessor input_df explainer lime_explainer page
        = ((Some label, Some s, Some ev, Some X, Some l), page) \<and>
      (label = Satisfied \<or> label = Not_Satisfied))"
proof (cases "try_body cfg model preprocessor input_df explainer lime_explainer")
  case (Inl e)
  then have "make_prediction cfg model preprocessor input_df explainer lime_explainer page
           = ((None, None, None, None, None), page @ [StError (error_text cfg e)])"
    by (simp add: make_prediction_def)
  then show ?thesis by blast
next
  case (Inr r)
  obtain label s ev X l where r: "r = (label, s, ev, X, l)" by (cases r)
  have "label = Satisfied \<or> label = Not_Satisfied"
    using Inr r unfolding try_body_def
    by (auto split: sum.splits prod.splits if_splits)
  with Inr r show ?thesis by (simp add: make_prediction_def)
qed

lemma try_body_fails:
  assumes "encode_categorical input_df = Inr encoded"
    and "transform preprocessor encoded = Inl e \<or>
      (transform preprocessor encoded = Inr X \<and>
        (predict model X = Inl e \<or>
          (predict model X = Inr prediction \<and>
            (shap_values explainer X = Inl e \<or>
              (shap_values explainer X = Inr sv \<and>
               (case sv of ShapList l \<Rightarrow> item l 1 | ShapArray a \<Rightarrow> Inr a) = Inr s \<and>
               item X 0 = Inr row \<and>
               explain_instance lime_explainer row (predict_proba model) (LIME_NUM_FEATURES cfg)
                 = Inl e)))))"
  shows "try_body cfg model preprocessor input_df explainer lime_explainer = Inl e"
  using assms unfolding try_body_def transform_predict_def by auto
section \<open>Claims about the encoder\<close>

text \<open>
  C1. For every table and every column with \<open>k\<close> distinct string values, one call of
  \<open>encode_categorical\<close> replaces each string of the column by a non-negative integer
  code; two entries get the same code exactly when they hold the same string, so the
  strings of the column receive exactly \<open>k\<close> distinct codes.
\<close>

theorem C1_distinct_codes:
  assumes "DAList.lookup df name = Some (ObjectCol vs)"
  shows "\<exists>df' cs. encode_categorical (DataFrame df) = Inr df' \<and>
           DAList.lookup df' name = Some (IntCol cs) \<and> length cs = length vs \<and>
           (\<forall>i < length vs. \<forall>s. vs ! i = Some s \<longrightarrow> 0 \<le> cs ! i) \<and>
           (\<forall>i < length vs. \<forall>j < length vs. \<forall>s t. vs ! i = Some s \<and> vs ! j = Some t \<longrightarrow>
              (cs ! i = cs ! j) = (s = t)) \<and>
           card {cs ! i | i. i < length vs \<and> vs ! i \<noteq> None} = card {s. Some s \<in> set vs}"
proof -
  obtain df' where e: "encode_categorical (DataFrame df) = Inr df'"
    and l: "\<And>n. DAList.lookup df' n = map_option encode_column (DAList.lookup df n)"
    using encode_categorical_frame [of df] by blast
  have "DAList.lookup df' name = Some (IntCol (codes vs))"
    using assms by (simp add: l)
  with e show ?thesis
    using codes_nonneg [of _ vs] codes_eq_iff [of _ vs] card_codes [of vs]
    by (intro exI [of _ df'] exI [of _ "codes vs"]) (simp add: length_codes)
qed


theorem C1_distinct_codes_witness:
  "DAList.lookup example_df ''Class'' = Some (ObjectCol [Some ''Eco'', Some ''Business'', Some ''Eco'']) \<and>
   (\<exists>df' cs. encode_categorical (DataFrame example_df) = Inr df' \<and>
      DAList.lookup df' ''Class'' = Some (IntCol cs) \<and> length cs = 3 \<and>
      0 \<le> cs ! 0 \<and> 0 \<le> cs ! 1 \<and> cs ! 0 = cs ! 2 \<and> cs ! 0 \<noteq> cs ! 1)"
proof -
  let ?vs = "[Some ''Eco'', Some ''Business'', Some ''Eco'']"
  have h: "DAList.lookup example_df ''Class'' = Some (ObjectCol ?vs)"
    by (rule lookup_example_df)
  from C1_distinct_codes [OF h] obtain df' cs where
    e: "encode_categorical (DataFrame example_df) = Inr df'" and
    l: "DAList.lookup df' ''Class'' = Some (IntCol cs)" and
    n: "length cs = length ?vs" and
    p: "\<forall>i < length ?vs. \<forall>s. ?vs ! i = Some s \<longrightarrow> 0 \<le> cs ! i" and
    q: "\<forall>i < length ?vs. \<forall>j < length ?vs. \<forall>s t. ?vs ! i = Some s \<and> ?vs ! j = Some t \<longrightarrow>
              (cs ! i = cs ! j) = (s = t)"
    by blast
  from p have "0 \<le> cs ! 0" "0 \<le> cs ! 1" by simp_all
  moreover from q [rule_format, of 0 2] have "cs ! 0 = cs ! 2" by simp
  moreover from q [rule_format, of 0 1] have "cs ! 0 \<noteq> cs ! 1" by simp
  ultimately show ?thesis using h e l n by auto
qed

text \<open>
  C2. The codes of a column are a function of the values of that column in that call
  alone: a string's code is the number of distinct strings of the column below it. No
  codebook is shared between calls, so the same string can get different codes in two
  tables: \<^verbatim>\<open>Eco\<close> is coded 0 in the user's default record and differently in a
  reference table that also holds a smaller string.
\<close>

theorem C2_codes_fixed_per_call:
  assumes "DAList.lookup df name = Some (ObjectCol vs)"
  shows "(\<exists>df'. encode_categorical (DataFrame df) = Inr df' \<and>
            DAList.lookup df' name =
              Some (IntCol (map (\<lambda>v. case v of None \<Rightarrow> - 1
                                 | Some s \<Rightarrow> int (card {t. Some t \<in> set vs \<and> t < s})) vs))) \<and>
         (\<exists>reference rvs k user_encoded reference_encoded rcs.
            DAList.lookup default_input ''Class'' = Some (ObjectCol [Some ''Eco'']) \<and>
            DAList.lookup reference ''Class'' = Some (ObjectCol rvs) \<and>
            k < length rvs \<and> rvs ! k = Some ''Eco'' \<and>
            encode_categorical (DataFrame default_input) = Inr user_encoded \<and>
            encode_categorical (DataFrame reference) = Inr reference_encoded \<and>
            DAList.lookup user_encoded ''Class'' = Some (IntCol [0]) \<and>
            DAList.lookup reference_encoded ''Class'' = Some (IntCol rcs) \<and>
            rcs ! k \<noteq> 0)"
proof
  obtain df' where e: "encode_categorical (DataFrame df) = Inr df'"
    and l: "\<And>n. DAList.lookup df' n = map_option encode_column (DAList.lookup df n)"
    using encode_categorical_frame [of df] by blast
  have "DAList.lookup df' name = Some (IntCol (codes vs))"
    using assms by (simp add: l)
  with e show "\<exists>df'. encode_categorical (DataFrame df) = Inr df' \<and>
            DAList.lookup df' name =
              Some (IntCol (map (\<lambda>v. case v of None \<Rightarrow> - 1
                                 | Some s \<Rightarrow> int (card {t. Some t \<in> set vs \<and> t < s})) vs))"
    using codes_as_rank [of vs] by auto
next
  let ?r = "Alist [(''Class'', IntCol [1, 0, 1]), (''Seat'', IntCol [0, - 1, 0]),
      (''Age'', IntCol [18, 40, 25])]"
  have "DAList.lookup default_input ''Class'' = Some (ObjectCol [Some ''Eco''])"
    by (simp add: lookup.rep_eq impl_of_default_input)
  moreover have "DAList.lookup encoded_default ''Class'' = Some (IntCol [0])"
    by (simp add: lookup.rep_eq impl_of_encoded_default)
  moreover have "DAList.lookup ?r ''Class'' = Some (IntCol [1, 0, 1])"
    by (simp add: lookup.rep_eq impl_of_Alist)
  moreover have "(0::nat) < length [Some ''Eco'', Some ''Business'', Some ''Eco'']"
    and "[Some ''Eco'', Some ''Business'', Some ''Eco''] ! 0 = Some ''Eco''"
    and "[1, 0, 1::int] ! 0 \<noteq> 0"
    by simp_all
  ultimately show "\<exists>reference rvs k user_encoded reference_encoded rcs.
            DAList.lookup default_input ''Class'' = Some (ObjectCol [Some ''Eco'']) \<and>
            DAList.lookup reference ''Class'' = Some (ObjectCol rvs) \<and>
            k < length rvs \<and> rvs ! k = Some ''Eco'' \<and>
            encode_categorical (DataFrame default_input) = Inr user_encoded \<and>
            encode_categorical (DataFrame reference) = Inr reference_encoded \<and>
            DAList.lookup user_encoded ''Class'' = Some (IntCol [0]) \<and>
            DAList.lookup reference_encoded ''Class'' = Some (IntCol rcs) \<and>
            rcs ! k \<noteq> 0"
    using lookup_example_df(1) encode_default_input encode_example_df by blast
qed


theorem C2_codes_fixed_per_call_witness:
  "DAList.lookup example_df ''Class'' = Some (ObjectCol [Some ''Eco'', Some ''Business'', Some ''Eco'']) \<and>
   (\<exists>df'. encode_categorical (DataFrame example_df) = Inr df' \<and>
      DAList.lookup df' ''Class'' =
        Some (IntCol (map (\<lambda>v. case v of None \<Rightarrow> - 1
           | Some s \<Rightarrow> int (card {t. Some t \<in> set [Some ''Eco'', Some ''Business'', Some ''Eco''] \<and> t < s}))
           [Some ''Eco'', Some ''Business'', Some ''Eco''])))"
proof -
  have h: "DAList.lookup example_df ''Class'' = Some (ObjectCol [Some ''Eco'', Some ''Business'', Some ''Eco''])"
    by (rule lookup_example_df)
  from C2_codes_fixed_per_call [OF h] h show ?thesis by blast
qed

text \<open>
  C3. For every table, after \<open>encode_categorical\<close> returns, no column of the returned
  table has dtype object: the labels are the same, and every column that held strings
  is now an integer column of the same length.
\<close>

theorem C3_no_object_column_left:
  "\<exists>df'. encode_categorical (DataFrame df) = Inr df' \<and> columns df' = columns df \<and>
     (\<forall>n c. DAList.lookup df' n = Some c \<longrightarrow> \<not> is_object c) \<and>
     (\<forall>n vs. DAList.lookup df n = Some (ObjectCol vs) \<longrightarrow>
        (\<exists>cs. DAList.lookup df' n = Some (IntCol cs) \<and> length cs = length vs))"
proof -
  obtain df' where e: "encode_categorical (DataFrame df) = Inr df'"
    and c: "columns df' = columns df"
    and l: "\<And>n. DAList.lookup df' n = map_option encode_column (DAList.lookup df n)"
    using encode_categorical_frame [of df] by blast
  have "\<And>c. \<not> is_object (encode_column c)"
    by (case_tac c) auto
  then have "\<forall>n c. DAList.lookup df' n = Some c \<longrightarrow> \<not> is_object c"
    by (auto simp: l)
  moreover have "\<forall>n vs. DAList.lookup df n = Some (ObjectCol vs) \<longrightarrow>
        (\<exists>cs. DAList.lookup df' n = Some (IntCol cs) \<and> length cs = length vs)"
    by (simp add: l length_codes)
  ultimately show ?thesis using e c by blast
qed


theorem C3_no_object_column_left_witness:
  "DAList.lookup example_df ''Class'' = Some (ObjectCol [Some ''Eco'', Some ''Business'', Some ''Eco'']) \<and>
   (\<exists>df'. encode_categorical (DataFrame example_df) = Inr df' \<and>
      columns df' = columns example_df \<and>
      (\<exists>cs. DAList.lookup df' ''Class'' = Some (IntCol cs) \<and> \<not> is_object (IntCol cs) \<and>
         length cs = 3))"
proof -
  have h: "DAList.lookup example_df ''Class'' = Some (ObjectCol [Some ''Eco'', Some ''Business'', Some ''Eco''])"
    by (rule lookup_example_df)
  from C3_no_object_column_left [of example_df] obtain df' where
    e: "encode_categorical (DataFrame example_df) = Inr df'" and
    c: "columns df' = columns example_df" and
    o: "\<forall>n vs. DAList.lookup example_df n = Some (ObjectCol vs) \<longrightarrow>
        (\<exists>cs. DAList.lookup df' n = Some (IntCol cs) \<and> length cs = length vs)"
    by blast
  from o h obtain cs where "DAList.lookup df' ''Class'' = Some (IntCol cs)" "length cs = 3"
    by fastforce
  with h e c show ?thesis by auto
qed

text \<open>
  C4. \<open>encode_categorical\<close> leaves every integer column as it is, value for value. On
  a table whose columns are all integer it changes nothing, and encoding an encoded
  table returns it unchanged: the encoding is idempotent.
\<close>

theorem C4_numeric_untouched_idempotent:
  "\<exists>df'. encode_categorical (DataFrame df) = Inr df' \<and>
     (\<forall>n xs. DAList.lookup df n = Some (IntCol xs) \<longrightarrow> DAList.lookup df' n = Some (IntCol xs)) \<and>
     ((\<forall>n c. DAList.lookup df n = Some c \<longrightarrow> \<not> is_object c) \<longrightarrow> df' = df) \<and>
     encode_categorical (DataFrame df') = Inr df'"
proof -
  obtain df' where e: "encode_categorical (DataFrame df) = Inr df'"
    and i: "DAList.impl_of df' = map (\<lambda>(n, c). (n, encode_column c)) (DAList.impl_of df)"
    and l: "\<And>n. DAList.lookup df' n = map_option encode_column (DAList.lookup df n)"
    using encode_categorical_frame [of df] by blast
  obtain df'' where e2: "encode_categorical (DataFrame df') = Inr df''"
    and i2: "DAList.impl_of df'' = map (\<lambda>(n, c). (n, encode_column c)) (DAList.impl_of df')"
    using encode_categorical_frame [of df'] by blast
  have "DAList.impl_of df'' = DAList.impl_of df'"
    by (simp add: i2 i encode_column_idem split_def)
  then have idem: "df'' = df'" by (rule alist_ext)
  have noop: "df' = df" if all: "\<forall>n c. DAList.lookup df n = Some c \<longrightarrow> \<not> is_object c"
  proof (rule alist_ext)
    have "map (\<lambda>(n, c). (n, encode_column c)) (DAList.impl_of df) = DAList.impl_of df"
    proof (rule map_idI)
      fix p assume p: "p \<in> set (DAList.impl_of df)"
      obtain n c where nc: "p = (n, c)" by (cases p)
      with p have "DAList.lookup df n = Some c" by (simp add: lookup.rep_eq)
      with all have "\<not> is_object c" by blast
      with nc show "(case p of (n, c) \<Rightarrow> (n, encode_column c)) = p"
        by (simp add: encode_column_id)
    qed
    with i show "DAList.impl_of df' = DAList.impl_of df" by simp
  qed
  have "\<forall>n xs. DAList.lookup df n = Some (IntCol xs) \<longrightarrow> DAList.lookup df' n = Some (IntCol xs)"
    by (simp add: l)
  with e e2 idem noop show ?thesis by blast
qed


theorem C4_numeric_untouched_idempotent_witness:
  "DAList.lookup encoded_default ''Age'' = Some (IntCol [18]) \<and>
   \<not> (\<exists>n c. DAList.lookup encoded_default n = Some c \<and> is_object c) \<and>
   (\<exists>df'. encode_categorical (DataFrame encoded_default) = Inr df' \<and>
      DAList.lookup df' ''Age'' = Some (IntCol [18]) \<and> df' = encoded_default \<and>
      encode_categorical (DataFrame df') = Inr df')"
proof -
  have h: "DAList.lookup encoded_default ''Age'' = Some (IntCol [18])"
    by (simp add: lookup.rep_eq impl_of_encoded_default)
  have a: "\<forall>n c. DAList.lookup encoded_default n = Some c \<longrightarrow> \<not> is_object c"
    by (auto simp: lookup.rep_eq impl_of_encoded_default split: if_splits)
  from C4_numeric_untouched_idempotent [of encoded_default] obtain df' where
    e: "encode_categorical (DataFrame encoded_default) = Inr df'" and
    k: "\<forall>n xs. DAList.lookup encoded_default n = Some (IntCol xs) \<longrightarrow>
          DAList.lookup df' n = Some (IntCol xs)" and
    z: "(\<forall>n c. DAList.lookup encoded_default n = Some c \<longrightarrow> \<not> is_object c) \<longrightarrow>
          df' = encoded_default" and
    i: "encode_categorical (DataFrame df') = Inr df'"
    by blast
  from k h have "DAList.lookup df' ''Age'' = Some (IntCol [18])" by blast
  moreover from z a have "df' = encoded_default" by blast
  moreover from a have "\<not> (\<exists>n c. DAList.lookup encoded_default n = Some c \<and> is_object c)"
    by blast
  ultimately show ?thesis using h e i by blast
qed

text \<open>
  C5. Where a string column has missing entries, every missing entry gets the code
  \<open>-1\<close>, which no present string gets (their codes are non-negative). No row is
  dropped: the coded column is as long as the original, and every column of the table
  and the table itself keep their number of rows.
\<close>

theorem C5_missing_own_code_rows_kept:
  assumes "DAList.lookup df name = Some (ObjectCol vs)"
  shows "\<exists>df' cs. encode_categorical (DataFrame df) = Inr df' \<and>
           DAList.lookup df' name = Some (IntCol cs) \<and> length cs = length vs \<and>
           (\<forall>i < length vs. vs ! i = None \<longrightarrow> cs ! i = - 1) \<and>
           (\<forall>i < length vs. vs ! i \<noteq> None \<longrightarrow> 0 \<le> cs ! i) \<and>
           nrows df' = nrows df \<and>
           map (\<lambda>(n, c). col_len c) (DAList.impl_of df') = map (\<lambda>(n, c). col_len c) (DAList.impl_of df)"
proof -
  obtain df' where e: "encode_categorical (DataFrame df) = Inr df'"
    and i: "DAList.impl_of df' = map (\<lambda>(n, c). (n, encode_column c)) (DAList.impl_of df)"
    and l: "\<And>n. DAList.lookup df' n = map_option encode_column (DAList.lookup df n)"
    using encode_categorical_frame [of df] by blast
  have len: "\<And>c. col_len (encode_column c) = col_len c"
    by (case_tac c) (auto simp: length_codes)
  have lens: "map (\<lambda>(n, c). col_len c) (DAList.impl_of df') = map (\<lambda>(n, c). col_len c) (DAList.impl_of df)"
    by (simp add: i len split_def)
  have rows: "nrows df' = nrows df"
    by (cases "DAList.impl_of df") (auto simp: nrows_def i len)
  have "DAList.lookup df' name = Some (IntCol (codes vs))"
    using assms by (simp add: l)
  moreover have "\<forall>i < length vs. vs ! i \<noteq> None \<longrightarrow> 0 \<le> codes vs ! i"
    using codes_nonneg [of _ vs] by auto
  ultimately show ?thesis
    using e lens rows codes_nth_None [of _ vs]
    by (intro exI [of _ df'] exI [of _ "codes vs"]) (simp add: length_codes)
qed


theorem C5_missing_own_code_rows_kept_witness:
  "DAList.lookup example_df ''Seat'' = Some (ObjectCol [Some ''A'', None, Some ''A'']) \<and>
   (\<exists>df' cs. encode_categorical (DataFrame example_df) = Inr df' \<and>
      DAList.lookup df' ''Seat'' = Some (IntCol cs) \<and> length cs = 3 \<and>
      cs ! 1 = - 1 \<and> 0 \<le> cs ! 0 \<and> 0 \<le> cs ! 2 \<and> nrows df' = 3)"
proof -
  let ?vs = "[Some ''A'', None, Some ''A'']"
  have h: "DAList.lookup example_df ''Seat'' = Some (ObjectCol ?vs)"
    by (rule lookup_example_df)
  have r: "nrows example_df = 3"
    by (simp add: nrows_def impl_of_example_df)
  from C5_missing_own_code_rows_kept [OF h] obtain df' cs where
    e: "encode_categorical (DataFrame example_df) = Inr df'" and
    l: "DAList.lookup df' ''Seat'' = Some (IntCol cs)" and
    n: "length cs = length ?vs" and
    m: "\<forall>i < length ?vs. ?vs ! i = None \<longrightarrow> cs ! i = - 1" and
    p: "\<forall>i < length ?vs. ?vs ! i \<noteq> None \<longrightarrow> 0 \<le> cs ! i" and
    k: "nrows df' = nrows example_df"
    by blast
  from m [rule_format, of 1] have "cs ! 1 = - 1" by simp
  moreover from p [rule_format, of 0] have "0 \<le> cs ! 0" by simp
  moreover from p [rule_format, of 2] have "0 \<le> cs ! 2" by simp
  ultimately show ?thesis using h e l n k r by auto
qed

text \<open>
  C9. \<open>encode_categorical\<close> returns on every table, among them a table with an empty
  column (coded as the empty column) and a column holding one string throughout (coded
  0 throughout). It fails only when its argument is not a table, and then with the
  \<^verbatim>\<open>AttributeError\<close> Python raises for an object that has no \<^verbatim>\<open>select_dtypes\<close>.
\<close>

theorem C9_fails_only_on_non_frame:
  "(\<exists>df'. encode_categorical (DataFrame df) = Inr df' \<and>
      (\<forall>n. DAList.lookup df n = Some (ObjectCol []) \<longrightarrow> DAList.lookup df' n = Some (IntCol [])) \<and>
      (\<forall>n k s. DAList.lookup df n = Some (ObjectCol (replicate k (Some s))) \<longrightarrow>
         DAList.lookup df' n = Some (IntCol (replicate k 0)))) \<and>
   encode_categorical NotDataFrame = Inl AttributeError \<and>
   (encode_categorical x = Inl e \<longrightarrow> x = NotDataFrame \<and> e = AttributeError)"
proof -
  obtain df' where e: "encode_categorical (DataFrame df) = Inr df'"
    and l: "\<And>n. DAList.lookup df' n = map_option encode_column (DAList.lookup df n)"
    using encode_categorical_frame [of df] by blast
  have "\<forall>n. DAList.lookup df n = Some (ObjectCol []) \<longrightarrow> DAList.lookup df' n = Some (IntCol [])"
    by (simp add: l codes_def)
  moreover have "\<forall>n k s. DAList.lookup df n = Some (ObjectCol (replicate k (Some s))) \<longrightarrow>
         DAList.lookup df' n = Some (IntCol (replicate k 0))"
    by (simp add: l codes_replicate)
  moreover have "encode_categorical x = Inl e \<longrightarrow> x = NotDataFrame \<and> e = AttributeError"
  proof (cases x)
    case (DataFrame d)
    obtain d' where "encode_categorical (DataFrame d) = Inr d'"
      using encode_categorical_frame [of d] by blast
    with DataFrame show ?thesis by simp
  next
    case NotDataFrame
    then show ?thesis by simp
  qed
  ultimately show ?thesis using e by auto
qed


theorem C9_fails_only_on_non_frame_witness:
  "encode_categorical NotDataFrame = Inl AttributeError \<and>
   (NotDataFrame = NotDataFrame \<and> AttributeError = AttributeError) \<and>
   (\<exists>df'. encode_categorical (DataFrame example_df) = Inr df')"
  using C9_fails_only_on_non_frame [of example_df NotDataFrame AttributeError] by blast

text \<open>
  C10. The code of a string is its rank among the distinct strings of its column in
  sorted order (the number of distinct strings below it), so with \<open>k\<close> distinct strings
  the codes are exactly \<open>0, ..., k - 1\<close>; a missing entry gets \<open>-1\<close>, below all of
  them. A column of a single row holding a string is coded 0, whatever the string.
\<close>

theorem C10_sorted_contiguous_codes:
  assumes "DAList.lookup df name = Some (ObjectCol vs)"
  shows "\<exists>df' cs. encode_categorical (DataFrame df) = Inr df' \<and>
           DAList.lookup df' name = Some (IntCol cs) \<and>
           (\<forall>i < length vs. \<forall>s. vs ! i = Some s \<longrightarrow>
              cs ! i = int (card {t. Some t \<in> set vs \<and> t < s})) \<and>
           {cs ! i | i. i < length vs \<and> vs ! i \<noteq> None} = int ` {0 ..< card {s. Some s \<in> set vs}} \<and>
           (\<forall>i < length vs. vs ! i = None \<longrightarrow> cs ! i = - 1) \<and>
           (\<forall>s. vs = [Some s] \<longrightarrow> cs = [0])"
proof -
  obtain df' where e: "encode_categorical (DataFrame df) = Inr df'"
    and l: "\<And>n. DAList.lookup df' n = map_option encode_column (DAList.lookup df n)"
    using encode_categorical_frame [of df] by blast
  have "DAList.lookup df' name = Some (IntCol (codes vs))"
    using assms by (simp add: l)
  moreover have "\<forall>i < length vs. \<forall>s. vs ! i = Some s \<longrightarrow>
      codes vs ! i = int (card {t. Some t \<in> set vs \<and> t < s})"
    using codes_rank [of _ vs] by (simp add: set_dropna)
  moreover have "{codes vs ! i | i. i < length vs \<and> vs ! i \<noteq> None} = int ` {0 ..< card {s. Some s \<in> set vs}}"
    using codes_range [of vs] by (simp only: set_dropna)
  moreover have "\<forall>s. vs = [Some s] \<longrightarrow> codes vs = [0]"
    by (simp add: codes_def categories_def)
  ultimately show ?thesis
    using e codes_nth_None [of _ vs]
    by (intro exI [of _ df'] exI [of _ "codes vs"]) simp
qed


theorem C10_sorted_contiguous_codes_witness:
  "DAList.lookup default_input ''Class'' = Some (ObjectCol [Some ''Eco'']) \<and>
   (\<exists>df' cs. encode_categorical (DataFrame default_input) = Inr df' \<and>
      DAList.lookup df' ''Class'' = Some (IntCol cs) \<and> cs = [0])"
proof -
  have h: "DAList.lookup default_input ''Class'' = Some (ObjectCol [Some ''Eco''])"
    by (simp add: lookup.rep_eq impl_of_default_input)
  note t = C10_sorted_contiguous_codes [OF h]
  from t obtain df' where "\<exists>cs. encode_categorical (DataFrame default_input) = Inr df' \<and>
           DAList.lookup df' ''Class'' = Some (IntCol cs) \<and>
           (\<forall>i < length [Some ''Eco'']. \<forall>s. [Some ''Eco''] ! i = Some s \<longrightarrow>
              cs ! i = int (card {t. Some t \<in> set [Some ''Eco''] \<and> t < s})) \<and>
           {cs ! i | i. i < length [Some ''Eco''] \<and> [Some ''Eco''] ! i \<noteq> None}
             = int ` {0 ..< card {s. Some s \<in> set [Some ''Eco'']}} \<and>
           (\<forall>i < length [Some ''Eco'']. [Some ''Eco''] ! i = None \<longrightarrow> cs ! i = - 1) \<and>
           (\<forall>s. [Some ''Eco''] = [Some s] \<longrightarrow> cs = [0])" ..
  then obtain cs where c: "encode_categorical (DataFrame default_input) = Inr df' \<and>
           DAList.lookup df' ''Class'' = Some (IntCol cs) \<and>
           (\<forall>i < length [Some ''Eco'']. \<forall>s. [Some ''Eco''] ! i = Some s \<longrightarrow>
              cs ! i = int (card {t. Some t \<in> set [Some ''Eco''] \<and> t < s})) \<and>
           {cs ! i | i. i < length [Some ''Eco''] \<and> [Some ''Eco''] ! i \<noteq> None}
             = int ` {0 ..< card {s. Some s \<in> set [Some ''Eco'']}} \<and>
           (\<forall>i < length [Some ''Eco'']. [Some ''Eco''] ! i = None \<longrightarrow> cs ! i = - 1) \<and>
           (\<forall>s. [Some ''Eco''] = [Some s] \<longrightarrow> cs = [0])" ..
  note e = c [THEN conjunct1]
  note l = c [THEN conjunct2, THEN conjunct1]
  note s = c [THEN conjunct2, THEN conjunct2, THEN conjunct2, THEN conjunct2, THEN conjunct2]
  from s have z: "cs = [0]" by (rule allE) (rule mp, assumption, rule refl)
  from h e l z show ?thesis by (intro conjI exI)
qed

section \<open>Claims about the prediction request\<close>


text \<open>
  C6. Whichever call of the predict and explain path raises (\<open>transform\<close>,
  \<open>predict\<close>, \<open>shap_values\<close> or \<open>explain_instance\<close>), \<open>make_prediction\<close> catches
  it, shows exactly one error message, which carries the text of that exception, and
  returns \<^verbatim>\<open>None\<close> in all five places; the button handler then shows nothing else.
  In general \<open>make_prediction\<close> returns either five values and no message, or five
  times \<^verbatim>\<open>None\<close> and one message: never a partial result.
\<close>

theorem C6_failures_caught:
  assumes "encode_categorical input_df = Inr encoded"
    and "transform preprocessor encoded = Inl e \<or>
      (transform preprocessor encoded = Inr X \<and>
        (predict model X = Inl e \<or>
          (predict model X = Inr prediction \<and>
            (shap_values explainer X = Inl e \<or>
              (shap_values explainer X = Inr sv \<and>
               (case sv of ShapList l \<Rightarrow> item l 1 | ShapArray a \<Rightarrow> Inr a) = Inr s \<and>
               item X 0 = Inr row \<and>
               explain_instance lime_explainer row (predict_proba model) (LIME_NUM_FEATURES cfg)
                 = Inl e)))))"
  shows "make_prediction cfg model preprocessor input_df explainer lime_explainer page
           = ((None, None, None, None, None), page @ [StError (error_text cfg e)]) \<and>
         predict_button cfg as_html model preprocessor input_df explainer lime_explainer page
           = (None, page @ [StError (error_text cfg e)]) \<and>
         ((\<exists>e'. make_prediction cfg model preprocessor other_df explainer lime_explainer page
                  = ((None, None, None, None, None), page @ [StError (error_text cfg e')])) \<or>
          (\<exists>label s' ev X' l.
             make_prediction cfg model preprocessor other_df explainer lime_explainer page
               = ((Some label, Some s', Some ev, Some X', Some l), page)))"
proof -
  have t: "try_body cfg model preprocessor input_df explainer lime_explainer = Inl e"
    using assms by (rule try_body_fails)
  then have m: "make_prediction cfg model preprocessor input_df explainer lime_explainer page
           = ((None, None, None, None, None), page @ [StError (error_text cfg e)])"
    by (simp add: make_prediction_def)
  then have "predict_button cfg as_html model preprocessor input_df explainer lime_explainer page
           = (None, page @ [StError (error_text cfg e)])"
    by (simp add: predict_button_def)
  with m show ?thesis
    using make_prediction_cases [of cfg model preprocessor other_df explainer lime_explainer page]
    by blast
qed

theorem C6_failures_caught_witness:
  "encode_categorical (DataFrame default_input) = Inr encoded_default \<and>
   transform demo_preprocessor encoded_default = Inr [[3, 3, 3, 3, 3, 18, 100, 0, 0, 0]] \<and>
   predict demo_model [[3, 3, 3, 3, 3, 18, 100, 0, 0, 0]] = Inr [1] \<and>
   shap_values demo_explainer [[3, 3, 3, 3, 3, 18, 100, 0, 0, 0]] = Inr (ShapList [[0], [1]]) \<and>
   explain_instance failing_lime [3, 3, 3, 3, 3, 18, 100, 0, 0, 0] (predict_proba demo_model)
     (LIME_NUM_FEATURES demo_config) = Inl (LibraryError ''no neighbourhood'') \<and>
   make_prediction demo_config demo_model demo_preprocessor (DataFrame default_input)
     demo_explainer failing_lime ([] :: string ui list)
     = ((None, None, None, None, None),
        [StError ''Error occurred during prediction: no neighbourhood. Please contact support.'']) \<and>
   predict_button demo_config demo_as_html demo_model demo_preprocessor (DataFrame default_input)
     demo_explainer failing_lime []
     = (None,
        [StError ''Error occurred during prediction: no neighbourhood. Please contact support.''])"
proof -
  let ?X = "[[3, 3, 3, 3, 3, 18, 100, 0, 0, 0 :: int]]"
  let ?row = "[3, 3, 3, 3, 3, 18, 100, 0, 0, 0 :: int]"
  let ?e = "LibraryError ''no neighbourhood''"
  have a: "transform demo_preprocessor encoded_default = Inr ?X"
    by (simp add: demo_preprocessor_def)
  have b: "predict demo_model ?X = Inr [1]"
    by (simp add: demo_model_def)
  have c: "shap_values demo_explainer ?X = Inr (ShapList [[0], [1]])"
    by (simp add: demo_explainer_def)
  have d: "(case ShapList [[0], [1 :: int]] of ShapList l \<Rightarrow> item l 1 | ShapArray a \<Rightarrow> Inr a) = Inr [1]"
    by (simp add: item_def)
  have f: "item ?X 0 = Inr ?row"
    by (simp add: item_def)
  have g: "explain_instance failing_lime ?row (predict_proba demo_model)
      (LIME_NUM_FEATURES demo_config) = Inl ?e"
    by (simp add: failing_lime_def)
  have h: "transform demo_preprocessor encoded_default = Inl ?e \<or>
      (transform demo_preprocessor encoded_default = Inr ?X \<and>
        (predict demo_model ?X = Inl ?e \<or>
          (predict demo_model ?X = Inr [1] \<and>
            (shap_values demo_explainer ?X = Inl ?e \<or>
              (shap_values demo_explainer ?X = Inr (ShapList [[0], [1]]) \<and>
               (case ShapList [[0], [1 :: int]] of ShapList l \<Rightarrow> item l 1 | ShapArray a \<Rightarrow> Inr a)
                 = Inr [1] \<and>
               item ?X 0 = Inr ?row \<and>
               explain_instance failing_lime ?row (predict_proba demo_model)
                 (LIME_NUM_FEATURES demo_config) = Inl ?e)))))"
    using a b c d f g by blast
  have t: "error_text demo_config ?e
      = ''Error occurred during prediction: no neighbourhood. Please contact support.''"
    by (simp add: error_text_def demo_config_def)
  note r = C6_failures_caught [where page = "[] :: string ui list" and as_html = demo_as_html
      and other_df = "DataFrame default_input", OF encode_default_input h]
  from r [THEN conjunct1] r [THEN conjunct2, THEN conjunct1] a b c g encode_default_input
  show ?thesis by (simp add: t)
qed

end
